theory Spec2Isabelle
  imports Main
begin

section \<open>Python values and decoded JSON\<close>

text \<open>
  The client stores whatever \<^verbatim>\<open>response.json()\<close> decodes into its attributes, so the
  attributes that receive decoded JSON are dynamically typed. \<open>pyval\<close> is the part of
  Python's values that JSON decoding produces: \<^verbatim>\<open>None\<close>, \<^verbatim>\<open>bool\<close>, \<^verbatim>\<open>int\<close>, \<^verbatim>\<open>str\<close>,
  \<^verbatim>\<open>list\<close> and \<^verbatim>\<open>dict\<close> with string keys (an association list in insertion order, keys
  distinct). Floats are left out.
\<close>

datatype pyval =
    VNone
  | VBool bool
  | VInt int
  | VStr string
  | VList "pyval list"
  | VDict "(string \<times> pyval) list"

section \<open>Zone (zone.py)\<close>

text \<open>
  The dataclass \<^verbatim>\<open>Zone\<close>, fields in declaration order. \<^verbatim>\<open>id\<close> is written \<open>id'\<close> (\<open>id\<close> is
  HOL's identity function); it is only ever set by the constructor and keeps its annotated
  type. \<^verbatim>\<open>host = "none"\<close> has no annotation, so it is a class attribute and not a field:
  it is the component \<open>Zone_host\<close> of the environment below.
\<close>

record Zone =
  name :: pyval
  gpio :: pyval
  time :: pyval
  enabled :: pyval
  auto_off :: pyval
  system_order :: pyval
  state :: pyval
  id' :: int

text \<open>
  The exceptions the two modules can raise. The source raises plain
  \<^verbatim>\<open>Exception(f"...")\<close>; the message is kept as a constructor that carries the values the
  f-string interpolates:
  \<^item> \<open>Failed_to_set_system_state state\<close>: \<^verbatim>\<open>f"Failed to set system state {state}"\<close>
  \<^item> \<open>Zone_not_found zone_id\<close>: \<^verbatim>\<open>f"Zone {zone_id} not found"\<close>
  \<^item> \<open>Failed_to_add_zone zone\<close>: \<^verbatim>\<open>f"Failed to add zone {zone}"\<close>
  \<^item> \<open>Failed_to_delete_zone zone_id\<close>: \<^verbatim>\<open>f"Failed to delete zone {zone_id}"\<close>
  \<^item> \<open>Failed_to_update_zone_order zone_order\<close>: \<^verbatim>\<open>f"Failed to update zone order {zone_order}"\<close>
  \<^item> \<open>Zone_did_not_update status payload\<close>:
    \<^verbatim>\<open>f"Zone did not update successfully ({req.status_code}). Payload: {zone_json}"\<close>
  The other constructors are the exceptions Python and the HTTP library raise themselves:
  a transport failure of \<^verbatim>\<open>requests.get/put/post/delete\<close>, a body that is not JSON in
  \<^verbatim>\<open>.json()\<close>, a missing key, a type error (subscripting or iterating a value that
  does not support it, or a call with the wrong number of arguments), and reading an
  attribute that was never assigned.
\<close>

datatype message =
    Failed_to_set_system_state bool
  | Zone_not_found int
  | Failed_to_add_zone Zone
  | Failed_to_delete_zone int
  | Failed_to_update_zone_order "int list"
  | Zone_did_not_update int pyval

datatype exn =
    Exception message
  | TransportError
  | JSONDecodeError
  | KeyError string
  | TypeError
  | AttributeError

text \<open>
  The spec's error taxonomy, read off the raised exception: NotFoundError is the
  \<^verbatim>\<open>"Zone ... not found"\<close> exception, OperationError every other exception the client raises
  itself after a non-200 status.
\<close>

fun NotFoundError :: "exn \<Rightarrow> bool" where
  "NotFoundError (Exception (Zone_not_found _)) = True"
| "NotFoundError _ = False"

fun OperationError :: "exn \<Rightarrow> bool" where
  "OperationError (Exception (Zone_not_found _)) = False"
| "OperationError (Exception _) = True"
| "OperationError _ = False"

section \<open>HTTP\<close>

datatype http_method = GET | PUT | POST | DELETE

text \<open>
  A call \<^verbatim>\<open>requests.<method>(url, json=body)\<close>, and what it returns: the status code and
  the decoded body (\<open>None\<close> when the body is not JSON, so that \<^verbatim>\<open>.json()\<close> raises).
\<close>

record request =
  meth :: http_method
  url :: string
  body :: "pyval option"

record response =
  status_code :: int
  json :: "pyval option"

definition Req :: "http_method \<Rightarrow> string \<Rightarrow> pyval option \<Rightarrow> request" where
  "Req m u b = \<lparr>meth = m, url = u, body = b\<rparr>"

text \<open>
  The module \<^verbatim>\<open>sqlsprinkler.API\<close> is imported by both files and is not among the sources;
  its five constants are parameters.
\<close>

record API =
  ZONE_INFO_URL :: string
  SYSTEM_STATE_URL :: string
  ZONE_URL :: string
  ZONE_UPDATE_URL :: string
  ZONE_ORDER_URL :: string

text \<open>
  Everything outside the two objects: the API constants, the class attribute
  \<^verbatim>\<open>Zone.host\<close> (\<^verbatim>\<open>"none"\<close> in the source, unless the library's user reassigns it), and the
  remote server. The server answers the last request of the history of all requests sent
  so far; \<open>None\<close> is a transport failure (the HTTP library raises).
\<close>

record env =
  api :: API
  Zone_host :: string
  net :: "request list \<Rightarrow> response option"

text \<open>
  A method of an object of type \<open>'s\<close>: it runs on the object's attributes and the log of
  requests sent so far, and returns its result or the exception it raised, together with
  the attributes and the log as they are at that moment. Python mutates in place, so what
  was assigned before a \<^verbatim>\<open>raise\<close> stays assigned.
\<close>

type_synonym ('s, 'a) prog = "'s \<Rightarrow> request list \<Rightarrow> (exn + 'a) \<times> 's \<times> request list"

definition return :: "'a \<Rightarrow> ('s, 'a) prog" where
  "return x = (\<lambda>s l. (Inr x, s, l))"

definition raise :: "exn \<Rightarrow> ('s, 'a) prog" where
  "raise e = (\<lambda>s l. (Inl e, s, l))"

definition bind :: "('s, 'a) prog \<Rightarrow> ('a \<Rightarrow> ('s, 'b) prog) \<Rightarrow> ('s, 'b) prog" where
  "bind m f = (\<lambda>s l. case m s l of
       (Inl e, s', l') \<Rightarrow> (Inl e, s', l')
     | (Inr x, s', l') \<Rightarrow> f x s' l')"

definition get_self :: "('s, 's) prog" where
  "get_self = (\<lambda>s l. (Inr s, s, l))"

definition assign :: "('s \<Rightarrow> 's) \<Rightarrow> ('s, unit) prog" where
  "assign f = (\<lambda>s l. (Inr (), f s, l))"

definition lift :: "exn + 'a \<Rightarrow> ('s, 'a) prog" where
  "lift r = (\<lambda>s l. (r, s, l))"

definition http :: "env \<Rightarrow> http_method \<Rightarrow> string \<Rightarrow> pyval option \<Rightarrow> ('s, response) prog" where
  "http e m u b = (\<lambda>s l.
     let l' = l @ [Req m u b]
     in case net e l' of
          None \<Rightarrow> (Inl TransportError, s, l')
        | Some r \<Rightarrow> (Inr r, s, l'))"

text \<open>\<^verbatim>\<open>response.json()\<close>\<close>

definition json_of :: "response \<Rightarrow> exn + pyval" where
  "json_of r = (case json r of None \<Rightarrow> Inl JSONDecodeError | Some v \<Rightarrow> Inr v)"

text \<open>\<^verbatim>\<open>v[k]\<close> for a string \<open>k\<close>\<close>

fun getitem :: "pyval \<Rightarrow> string \<Rightarrow> exn + pyval" where
  "getitem (VDict kvs) k = (case map_of kvs k of None \<Rightarrow> Inl (KeyError k) | Some v \<Rightarrow> Inr v)"
| "getitem _ k = Inl TypeError"

text \<open>\<^verbatim>\<open>for x in v\<close>: the elements of a list, the keys of a dict, the characters of a string\<close>

fun iterate :: "pyval \<Rightarrow> exn + pyval list" where
  "iterate (VList xs) = Inr xs"
| "iterate (VDict kvs) = Inr (map (\<lambda>kv. VStr (fst kv)) kvs)"
| "iterate (VStr s) = Inr (map (\<lambda>c. VStr [c]) s)"
| "iterate _ = Inl TypeError"

text \<open>\<^verbatim>\<open>str(n)\<close> for an int, and \<^verbatim>\<open>f"{host}/{path}"\<close>\<close>

fun str_nat :: "nat \<Rightarrow> string" where
  "str_nat n = (if n < 10 then [''0123456789'' ! n]
                else str_nat (n div 10) @ [''0123456789'' ! (n mod 10)])"

definition str_int :: "int \<Rightarrow> string" where
  "str_int i = (if i < 0 then CHR ''-'' # str_nat (nat (- i)) else str_nat (nat i))"

definition endpoint :: "string \<Rightarrow> string \<Rightarrow> string" where
  "endpoint h p = h @ ''/'' @ p"

subsection \<open>The methods of Zone\<close>

text \<open>\<^verbatim>\<open>Zone()\<close>: every field from its \<^verbatim>\<open>default_factory\<close>; \<^verbatim>\<open>Zone(v)\<close>: the one positional
  argument is the first field, \<^verbatim>\<open>name\<close>.\<close>

definition Zone_default :: Zone where
  "Zone_default = \<lparr>name = VStr [], gpio = VInt 0, time = VInt 0, enabled = VBool False,
     auto_off = VBool False, system_order = VInt 0, state = VBool False, id' = 0\<rparr>"

definition Zone_positional :: "pyval \<Rightarrow> Zone" where
  "Zone_positional v = Zone_default\<lparr>name := v\<rparr>"

definition state_payload :: "Zone \<Rightarrow> pyval" where
  "state_payload z = VDict [(''id'', VInt (id' z)), (''state'', state z)]"

definition turn_on :: "env \<Rightarrow> (Zone, unit) prog" where
  "turn_on e =
     bind (assign (\<lambda>z. z\<lparr>state := VBool True\<rparr>)) (\<lambda>_.
     bind get_self (\<lambda>z.
     bind (http e PUT (endpoint (Zone_host e) (ZONE_URL (api e))) (Some (state_payload z))) (\<lambda>_.
     return ())))"

definition turn_off :: "env \<Rightarrow> (Zone, unit) prog" where
  "turn_off e =
     bind (assign (\<lambda>z. z\<lparr>state := VBool False\<rparr>)) (\<lambda>_.
     bind get_self (\<lambda>z.
     bind (http e PUT (endpoint (Zone_host e) (ZONE_URL (api e))) (Some (state_payload z))) (\<lambda>_.
     return ())))"

text \<open>\<^verbatim>\<open>request.json()['k']\<close>\<close>

definition json_field :: "response \<Rightarrow> string \<Rightarrow> ('s, pyval) prog" where
  "json_field r k = bind (lift (json_of r)) (\<lambda>j. lift (getitem j k))"

text \<open>
  \<^verbatim>\<open>Zone.update(self)\<close>, the refresh from the server. The method has no parameter but
  \<^verbatim>\<open>self\<close>: \<open>args\<close> are the further positional arguments of a call, and a call that passes
  any raises \<^verbatim>\<open>TypeError\<close> before the body runs.
\<close>

definition update :: "env \<Rightarrow> Zone list \<Rightarrow> (Zone, unit) prog" where
  "update e args =
     (if args \<noteq> [] then raise TypeError else
      bind get_self (\<lambda>z.
      bind (http e GET (endpoint (endpoint (Zone_host e) (ZONE_INFO_URL (api e))) (str_int (id' z))) None) (\<lambda>r.
      bind (json_field r ''name'') (\<lambda>v. bind (assign (\<lambda>z. z\<lparr>name := v\<rparr>)) (\<lambda>_.
      bind (json_field r ''gpio'') (\<lambda>v. bind (assign (\<lambda>z. z\<lparr>gpio := v\<rparr>)) (\<lambda>_.
      bind (json_field r ''time'') (\<lambda>v. bind (assign (\<lambda>z. z\<lparr>time := v\<rparr>)) (\<lambda>_.
      bind (json_field r ''enabled'') (\<lambda>v. bind (assign (\<lambda>z. z\<lparr>enabled := v\<rparr>)) (\<lambda>_.
      bind (json_field r ''auto_off'') (\<lambda>v. bind (assign (\<lambda>z. z\<lparr>auto_off := v\<rparr>)) (\<lambda>_.
      bind (json_field r ''system_order'') (\<lambda>v. bind (assign (\<lambda>z. z\<lparr>system_order := v\<rparr>)) (\<lambda>_.
      bind (json_field r ''state'') (\<lambda>v. assign (\<lambda>z. z\<lparr>state := v\<rparr>)))))))))))))))))"

definition zone_json :: "Zone \<Rightarrow> pyval" where
  "zone_json z = VDict [(''id'', VInt (id' z)), (''Name'', name z), (''GPIO'', gpio z),
     (''Time'', time z), (''Enabled'', enabled z), (''Autooff'', auto_off z),
     (''SystemOrder'', system_order z)]"

definition update_other :: "env \<Rightarrow> Zone \<Rightarrow> (Zone, unit) prog" where
  "update_other e other =
     bind (assign (\<lambda>z. z\<lparr>name := name other\<rparr>)) (\<lambda>_.
     bind (assign (\<lambda>z. z\<lparr>gpio := gpio other\<rparr>)) (\<lambda>_.
     bind (assign (\<lambda>z. z\<lparr>time := time other\<rparr>)) (\<lambda>_.
     bind (assign (\<lambda>z. z\<lparr>enabled := enabled other\<rparr>)) (\<lambda>_.
     bind (assign (\<lambda>z. z\<lparr>auto_off := auto_off other\<rparr>)) (\<lambda>_.
     bind (assign (\<lambda>z. z\<lparr>system_order := system_order other\<rparr>)) (\<lambda>_.
     bind get_self (\<lambda>z.
     bind (http e PUT (endpoint (Zone_host e) (ZONE_UPDATE_URL (api e))) (Some (zone_json z))) (\<lambda>req.
     if status_code req \<noteq> 200
     then raise (Exception (Zone_did_not_update (status_code req) (zone_json z)))
     else return ()))))))))"

text \<open>The setters call \<^verbatim>\<open>self.update_other(self)\<close>: the peer is the object itself, as it is
  after the setter's own assignment.\<close>

definition update_other_self :: "env \<Rightarrow> (Zone, unit) prog" where
  "update_other_self e = bind get_self (\<lambda>z. update_other e z)"

definition enable :: "env \<Rightarrow> (Zone, unit) prog" where
  "enable e = bind (assign (\<lambda>z. z\<lparr>enabled := VBool True\<rparr>)) (\<lambda>_. update_other_self e)"

definition disable :: "env \<Rightarrow> (Zone, unit) prog" where
  "disable e = bind (assign (\<lambda>z. z\<lparr>enabled := VBool False\<rparr>)) (\<lambda>_. update_other_self e)"

definition set_time :: "env \<Rightarrow> int \<Rightarrow> (Zone, unit) prog" where
  "set_time e t = bind (assign (\<lambda>z. z\<lparr>time := VInt t\<rparr>)) (\<lambda>_. update_other_self e)"

definition set_gpio :: "env \<Rightarrow> int \<Rightarrow> (Zone, unit) prog" where
  "set_gpio e g = bind (assign (\<lambda>z. z\<lparr>gpio := VInt g\<rparr>)) (\<lambda>_. update_other_self e)"

definition set_name :: "env \<Rightarrow> string \<Rightarrow> (Zone, unit) prog" where
  "set_name e n = bind (assign (\<lambda>z. z\<lparr>name := VStr n\<rparr>)) (\<lambda>_. update_other_self e)"

definition set_auto_off :: "env \<Rightarrow> bool \<Rightarrow> (Zone, unit) prog" where
  "set_auto_off e a = bind (assign (\<lambda>z. z\<lparr>auto_off := VBool a\<rparr>)) (\<lambda>_. update_other_self e)"

definition set_system_order :: "env \<Rightarrow> int \<Rightarrow> (Zone, unit) prog" where
  "set_system_order e n = bind (assign (\<lambda>z. z\<lparr>system_order := VInt n\<rparr>)) (\<lambda>_. update_other_self e)"

section \<open>System (system.py)\<close>

text \<open>
  The dataclass \<^verbatim>\<open>System\<close>: its three fields, and \<open>state'\<close>, the attribute \<^verbatim>\<open>self.state\<close>
  that \<^verbatim>\<open>_update_system_state\<close> creates by assignment (it is not a field of the dataclass;
  \<open>None\<close> until the first assignment). The zones are held by value, in list order: the
  objects of \<^verbatim>\<open>self.zones\<close> are taken to be distinct objects, and a reference to one of them
  is its position in the list.
\<close>

record System =
  zones :: "Zone list"
  system_state :: pyval
  host :: string
  state' :: "pyval option"

text \<open>\<^verbatim>\<open>_fetch_zones\<close>: \<^verbatim>\<open>Zone(zone)\<close> passes each decoded entry as the one positional
  argument.\<close>

definition fetch_zones :: "env \<Rightarrow> (System, Zone list) prog" where
  "fetch_zones e =
     bind get_self (\<lambda>s.
     bind (http e GET (endpoint (host s) (ZONE_INFO_URL (api e))) None) (\<lambda>r.
     bind (lift (json_of r)) (\<lambda>request.
     bind (lift (iterate request)) (\<lambda>entries.
     return (map Zone_positional entries)))))"

text \<open>\<^verbatim>\<open>get_zones\<close>: the statement \<^verbatim>\<open>self._fetch_zones()\<close> drops the list it gets.\<close>

definition get_zones :: "env \<Rightarrow> (System, Zone list) prog" where
  "get_zones e =
     bind (fetch_zones e) (\<lambda>_.
     bind get_self (\<lambda>s.
     return (zones s)))"

text \<open>\<^verbatim>\<open>_update_system_state\<close>\<close>

definition update_system_state :: "env \<Rightarrow> (System, unit) prog" where
  "update_system_state e =
     bind get_self (\<lambda>s.
     bind (http e GET (endpoint (host s) (SYSTEM_STATE_URL (api e))) None) (\<lambda>r.
     bind (lift (json_of r)) (\<lambda>request.
     bind (lift (getitem request ''system_state'')) (\<lambda>v.
     assign (\<lambda>s. s\<lparr>state' := Some v\<rparr>)))))"

definition get_system_state :: "env \<Rightarrow> (System, pyval) prog" where
  "get_system_state e =
     bind (update_system_state e) (\<lambda>_.
     bind get_self (\<lambda>s.
     case state' s of None \<Rightarrow> raise AttributeError | Some v \<Rightarrow> return v))"

definition set_system_state :: "env \<Rightarrow> bool \<Rightarrow> (System, unit) prog" where
  "set_system_state e b =
     bind get_self (\<lambda>s.
     bind (http e PUT (endpoint (host s) (SYSTEM_STATE_URL (api e)))
             (Some (VDict [(''system_state'', VBool b)]))) (\<lambda>request.
     if status_code request \<noteq> 200
     then raise (Exception (Failed_to_set_system_state b))
     else update_system_state e))"

text \<open>
  \<^verbatim>\<open>get_zone_by_id\<close>: \<^verbatim>\<open>next(filter(lambda zone: zone.id == zone_id, self.zones), None)\<close>, the
  first zone of the list with that id. The result is the reference: the position of that
  zone in \<^verbatim>\<open>self.zones\<close>.
\<close>

fun first_with_id :: "int \<Rightarrow> Zone list \<Rightarrow> nat option" where
  "first_with_id zone_id [] = None"
| "first_with_id zone_id (zone # rest) =
     (if id' zone = zone_id then Some 0 else map_option Suc (first_with_id zone_id rest))"

definition get_zone_by_id :: "int \<Rightarrow> System \<Rightarrow> nat option" where
  "get_zone_by_id zone_id s = first_with_id zone_id (zones s)"

text \<open>A method of the zone at position \<open>i\<close> of \<^verbatim>\<open>self.zones\<close>, run in place. The changed
  zone is written back at position \<open>i\<close> only: this is what Python does when the object at
  \<open>i\<close> is at no other position of the list. A list that holds one Zone object twice is
  outside the model (Python would show the change at both positions).\<close>

definition in_zone :: "nat \<Rightarrow> (Zone, 'a) prog \<Rightarrow> (System, 'a) prog" where
  "in_zone i m = (\<lambda>s l. case m (zones s ! i) l of
     (r, z', l') \<Rightarrow> (r, s\<lparr>zones := (zones s)[i := z']\<rparr>, l'))"

text \<open>A method of an object the caller passed in: its attributes are the caller's, not the
  System's.\<close>

definition on_argument :: "Zone \<Rightarrow> (Zone, 'a) prog \<Rightarrow> (System, 'a) prog" where
  "on_argument z m = (\<lambda>s l. case m z l of (r, z', l') \<Rightarrow> (r, s, l'))"

definition update_zone_state :: "env \<Rightarrow> int \<Rightarrow> bool \<Rightarrow> (System, unit) prog" where
  "update_zone_state e zone_id b =
     bind get_self (\<lambda>s.
     case get_zone_by_id zone_id s of
       None \<Rightarrow> raise (Exception (Zone_not_found zone_id))
     | Some zone \<Rightarrow>
         bind (in_zone zone (if b then turn_on e else turn_off e)) (\<lambda>_.
         bind (fetch_zones e) (\<lambda>_.
         return ())))"

definition zone_to_add :: "Zone \<Rightarrow> pyval" where
  "zone_to_add zone = VDict [(''name'', name zone), (''gpio'', gpio zone), (''time'', time zone),
     (''enabled'', enabled zone), (''auto_off'', auto_off zone)]"

definition add_zone :: "env \<Rightarrow> Zone \<Rightarrow> (System, unit) prog" where
  "add_zone e zone =
     bind get_self (\<lambda>s.
     bind (http e POST (endpoint (host s) (ZONE_URL (api e))) (Some (zone_to_add zone))) (\<lambda>request.
     if status_code request \<noteq> 200
     then raise (Exception (Failed_to_add_zone zone))
     else bind (get_zones e) (\<lambda>zs. assign (\<lambda>s. s\<lparr>zones := zs\<rparr>))))"

definition delete_zone :: "env \<Rightarrow> int \<Rightarrow> (System, unit) prog" where
  "delete_zone e zone_id =
     bind get_self (\<lambda>s.
     bind (http e DELETE (endpoint (host s) (ZONE_URL (api e)))
             (Some (VDict [(''id'', VInt zone_id)]))) (\<lambda>request.
     if status_code request \<noteq> 200
     then raise (Exception (Failed_to_delete_zone zone_id))
     else return ()))"

text \<open>\<^verbatim>\<open>update_zone\<close>: the call is \<^verbatim>\<open>zone.update(zone_to_update)\<close>, the method \<^verbatim>\<open>update\<close> of
  the argument, with the zone found as a positional argument.\<close>

definition update_zone :: "env \<Rightarrow> Zone \<Rightarrow> (System, unit) prog" where
  "update_zone e zone =
     bind get_self (\<lambda>s.
     case get_zone_by_id (id' zone) s of
       None \<Rightarrow> raise (Exception (Zone_not_found (id' zone)))
     | Some zone_to_update \<Rightarrow>
         bind (on_argument zone (update e [zones s ! zone_to_update])) (\<lambda>_.
         bind (get_zones e) (\<lambda>zs.
         assign (\<lambda>s. s\<lparr>zones := zs\<rparr>))))"

definition update_zone_order :: "env \<Rightarrow> int list \<Rightarrow> (System, unit) prog" where
  "update_zone_order e zone_order =
     bind get_self (\<lambda>s.
     bind (http e PUT (endpoint (host s) (ZONE_ORDER_URL (api e)))
             (Some (VDict [(''order'', VList (map VInt zone_order))]))) (\<lambda>request.
     if status_code request \<noteq> 200
     then raise (Exception (Failed_to_update_zone_order zone_order))
     else bind (get_zones e) (\<lambda>zs. assign (\<lambda>s. s\<lparr>zones := zs\<rparr>))))"

text \<open>\<^verbatim>\<open>__post_init__\<close>, and the constructor \<^verbatim>\<open>System(zones, system_state, host)\<close>: the
  generated \<^verbatim>\<open>__init__\<close> assigns the three fields and calls \<^verbatim>\<open>__post_init__\<close>. The
  defaults are \<^verbatim>\<open>[]\<close>, \<^verbatim>\<open>False\<close> and \<^verbatim>\<open>""\<close>.\<close>

definition post_init :: "env \<Rightarrow> (System, unit) prog" where
  "post_init e =
     bind (get_zones e) (\<lambda>zs.
     bind (assign (\<lambda>s. s\<lparr>zones := zs\<rparr>)) (\<lambda>_.
     bind (get_system_state e) (\<lambda>v.
     assign (\<lambda>s. s\<lparr>system_state := v\<rparr>))))"

definition System_init :: "env \<Rightarrow> Zone list \<Rightarrow> bool \<Rightarrow> string \<Rightarrow> request list
    \<Rightarrow> (exn + unit) \<times> System \<times> request list" where
  "System_init e zs st h =
     post_init e \<lparr>zones = zs, system_state = VBool st, host = h, state' = None\<rparr>"

section \<open>Vocabulary of the properties\<close>

text \<open>The three components of a run: what the call returned or raised, the attributes of
  the object afterwards, and the requests sent so far.\<close>

definition outcome :: "(exn + 'a) \<times> 's \<times> request list \<Rightarrow> exn + 'a" where
  "outcome x = fst x"

definition attrs :: "(exn + 'a) \<times> 's \<times> request list \<Rightarrow> 's" where
  "attrs x = fst (snd x)"

definition sent :: "(exn + 'a) \<times> 's \<times> request list \<Rightarrow> request list" where
  "sent x = snd (snd x)"

text \<open>The requests of the specification's table of endpoints, written from the
  specification and not from the code.\<close>

definition zone_info_get :: "env \<Rightarrow> System \<Rightarrow> request" where
  "zone_info_get e s = Req GET (endpoint (host s) (ZONE_INFO_URL (api e))) None"

definition state_get :: "env \<Rightarrow> System \<Rightarrow> request" where
  "state_get e s = Req GET (endpoint (host s) (SYSTEM_STATE_URL (api e))) None"

definition state_put :: "env \<Rightarrow> System \<Rightarrow> bool \<Rightarrow> request" where
  "state_put e s b = Req PUT (endpoint (host s) (SYSTEM_STATE_URL (api e)))
     (Some (VDict [(''system_state'', VBool b)]))"

definition zone_state_put :: "env \<Rightarrow> int \<Rightarrow> bool \<Rightarrow> request" where
  "zone_state_put e zone_id b = Req PUT (endpoint (Zone_host e) (ZONE_URL (api e)))
     (Some (VDict [(''id'', VInt zone_id), (''state'', VBool b)]))"

definition zone_add_post :: "env \<Rightarrow> System \<Rightarrow> Zone \<Rightarrow> request" where
  "zone_add_post e s z = Req POST (endpoint (host s) (ZONE_URL (api e)))
     (Some (VDict [(''name'', name z), (''gpio'', gpio z), (''time'', time z),
        (''enabled'', enabled z), (''auto_off'', auto_off z)]))"

definition zone_delete :: "env \<Rightarrow> System \<Rightarrow> int \<Rightarrow> request" where
  "zone_delete e s zone_id = Req DELETE (endpoint (host s) (ZONE_URL (api e)))
     (Some (VDict [(''id'', VInt zone_id)]))"

definition zone_update_put :: "env \<Rightarrow> Zone \<Rightarrow> request" where
  "zone_update_put e z = Req PUT (endpoint (Zone_host e) (ZONE_UPDATE_URL (api e)))
     (Some (VDict [(''id'', VInt (id' z)), (''Name'', name z), (''GPIO'', gpio z),
        (''Time'', time z), (''Enabled'', enabled z), (''Autooff'', auto_off z),
        (''SystemOrder'', system_order z)]))"

definition zone_order_put :: "env \<Rightarrow> System \<Rightarrow> int list \<Rightarrow> request" where
  "zone_order_put e s order = Req PUT (endpoint (host s) (ZONE_ORDER_URL (api e)))
     (Some (VDict [(''order'', VList (map VInt order))]))"

text \<open>\<open>self\<close> with the six configuration fields of \<open>other\<close>.\<close>

definition merged :: "Zone \<Rightarrow> Zone \<Rightarrow> Zone" where
  "merged self other = self\<lparr>name := name other, gpio := gpio other, time := time other,
     enabled := enabled other, auto_off := auto_off other, system_order := system_order other\<rparr>"

text \<open>
  A sequence of calls of \<^verbatim>\<open>get_system_state\<close> and \<^verbatim>\<open>set_system_state\<close> on one System. The
  caller goes on after a call that raised: the object is as the call left it.
\<close>

datatype state_call = Get_system_state | Set_system_state bool

fun call :: "env \<Rightarrow> state_call \<Rightarrow> System \<Rightarrow> request list \<Rightarrow> System \<times> request list" where
  "call e Get_system_state s l = snd (get_system_state e s l)"
| "call e (Set_system_state b) s l = snd (set_system_state e b s l)"

fun calls :: "env \<Rightarrow> state_call list \<Rightarrow> System \<Rightarrow> request list \<Rightarrow> System \<times> request list" where
  "calls e [] s l = (s, l)"
| "calls e (c # cs) s l = (case call e c s l of (s', l') \<Rightarrow> calls e cs s' l')"

subsection \<open>A concrete host\<close>

text \<open>
  The host \<^verbatim>\<open>http://x\<close> of the specification's example. The values of the API constants
  are examples. The server lists the zone Front, and the zone Back as well once a zone has
  been added; it reports the system state last put (\<^verbatim>\<open>false\<close> at first); it answers every
  other request with status 200 and no JSON. A second server refuses everything with
  status 500.
\<close>

definition example_api :: API where
  "example_api = \<lparr>ZONE_INFO_URL = ''zone/info'', SYSTEM_STATE_URL = ''system/state'',
     ZONE_URL = ''zone'', ZONE_UPDATE_URL = ''zone/update'', ZONE_ORDER_URL = ''zone/order''\<rparr>"

definition front_record :: pyval where
  "front_record = VDict [(''id'', VInt 1), (''name'', VStr ''Front''), (''gpio'', VInt 4),
     (''time'', VInt 300), (''enabled'', VBool True), (''auto_off'', VBool False),
     (''system_order'', VInt 0), (''state'', VBool False)]"

definition back_record :: pyval where
  "back_record = VDict [(''id'', VInt 2), (''name'', VStr ''Back''), (''gpio'', VInt 5),
     (''time'', VInt 60), (''enabled'', VBool True), (''auto_off'', VBool False),
     (''system_order'', VInt 1), (''state'', VBool False)]"

text \<open>\<^verbatim>\<open>Zone(id=1, name="Front", gpio=4, time=300, enabled=True, auto_off=False,
  system_order=0, state=False)\<close>, and \<^verbatim>\<open>Zone(name="Back", gpio=5, time=60, enabled=True)\<close>.\<close>

definition front_zone :: Zone where
  "front_zone = \<lparr>name = VStr ''Front'', gpio = VInt 4, time = VInt 300, enabled = VBool True,
     auto_off = VBool False, system_order = VInt 0, state = VBool False, id' = 1\<rparr>"

definition back_zone :: Zone where
  "back_zone = \<lparr>name = VStr ''Back'', gpio = VInt 5, time = VInt 60, enabled = VBool True,
     auto_off = VBool False, system_order = VInt 0, state = VBool False, id' = 0\<rparr>"

fun stored_state :: "request list \<Rightarrow> pyval" where
  "stored_state [] = VBool False"
| "stored_state (q # earlier) =
     (if meth q = PUT \<and> url q = ''http://x/system/state''
      then (case body q of Some (VDict [(k, v)]) \<Rightarrow> v | _ \<Rightarrow> stored_state earlier)
      else stored_state earlier)"

definition example_server :: "request list \<Rightarrow> response option" where
  "example_server l = (case rev l of
       [] \<Rightarrow> None
     | q # earlier \<Rightarrow>
         if meth q = GET \<and> url q = ''http://x/zone/info''
         then Some \<lparr>status_code = 200, json = Some (VList
                (if list_ex (\<lambda>p. meth p = POST \<and> url p = ''http://x/zone'') earlier
                 then [front_record, back_record] else [front_record]))\<rparr>
         else if meth q = GET \<and> url q = ''http://x/system/state''
         then Some \<lparr>status_code = 200,
                json = Some (VDict [(''system_state'', stored_state earlier)])\<rparr>
         else Some \<lparr>status_code = 200, json = None\<rparr>)"

definition failing_server :: "request list \<Rightarrow> response option" where
  "failing_server l = Some \<lparr>status_code = 500, json = None\<rparr>"

definition example_env :: env where
  "example_env = \<lparr>api = example_api, Zone_host = ''http://x'', net = example_server\<rparr>"

definition failing_env :: env where
  "failing_env = \<lparr>api = example_api, Zone_host = ''http://x'', net = failing_server\<rparr>"

text \<open>The System that \<^verbatim>\<open>System(host="http://x")\<close> leaves behind against the example
  server.\<close>

definition x_system :: System where
  "x_system = \<lparr>zones = [], system_state = VBool False, host = ''http://x'',
     state' = Some (VBool False)\<rparr>"

section \<open>Running the methods\<close>

lemma return_apply: "return x s l = (Inr x, s, l)"
  by (simp add: return_def)

lemma raise_apply: "raise x s l = (Inl x, s, l)"
  by (simp add: raise_def)

lemma get_self_apply: "get_self s l = (Inr s, s, l)"
  by (simp add: get_self_def)

lemma assign_apply: "assign f s l = (Inr (), f s, l)"
  by (simp add: assign_def)

lemma lift_apply: "lift r s l = (r, s, l)"
  by (simp add: lift_def)

lemma bind_apply:
  "bind m f s l = (case m s l of
       (Inl e, s', l') \<Rightarrow> (Inl e, s', l')
     | (Inr x, s', l') \<Rightarrow> f x s' l')"
  by (simp add: bind_def)

lemma http_apply:
  "http e m u b s l = (case net e (l @ [Req m u b]) of
       None \<Rightarrow> (Inl TransportError, s, l @ [Req m u b])
     | Some r \<Rightarrow> (Inr r, s, l @ [Req m u b]))"
  by (simp add: http_def Let_def)

lemmas prog_simps = return_apply raise_apply get_self_apply assign_apply lift_apply bind_apply
  http_apply outcome_def attrs_def sent_def

lemmas request_defs = state_put_def state_get_def zone_add_post_def zone_delete_def
  zone_order_put_def zone_update_put_def zone_state_put_def zone_info_get_def

lemmas example_defs = example_env_def example_api_def example_server_def front_record_def
  back_record_def front_zone_def back_zone_def x_system_def failing_env_def failing_server_def
  endpoint_def Req_def

subsection \<open>Looking a zone up\<close>

lemma first_with_id_find:
  "map_option (\<lambda>i. zs ! i) (first_with_id zone_id zs) = find (\<lambda>zone. id' zone = zone_id) zs"
  by (induction zs) (auto simp: option.map_comp comp_def)

lemma first_with_id_None: "first_with_id zone_id zs = None \<longleftrightarrow> zone_id \<notin> id' ` set zs"
  by (induction zs) auto

lemma first_with_id_Some:
  "first_with_id zone_id zs = Some i \<Longrightarrow> i < length zs \<and> id' (zs ! i) = zone_id"
  by (induction zs arbitrary: i) (auto split: if_splits)

subsection \<open>The zone list\<close>

lemma fetch_zones_attrs: "attrs (fetch_zones e s l) = s"
  by (simp add: fetch_zones_def prog_simps split: option.splits sum.splits prod.splits)

lemma fetch_zones_sent: "sent (fetch_zones e s l) = l @ [zone_info_get e s]"
  by (simp add: fetch_zones_def prog_simps request_defs
      split: option.splits sum.splits prod.splits)

lemma get_zones_attrs: "attrs (get_zones e s l) = s"
  using fetch_zones_attrs[of e s l]
  by (auto simp add: get_zones_def prog_simps split: option.splits sum.splits prod.splits)

lemma get_zones_sent: "sent (get_zones e s l) = l @ [zone_info_get e s]"
  using fetch_zones_sent[of e s l] fetch_zones_attrs[of e s l]
  by (auto simp add: get_zones_def prog_simps split: option.splits sum.splits prod.splits)

text \<open>Whatever the server answers, a \<^verbatim>\<open>get_zones()\<close> that returns, returns the list the
  System already holds.\<close>

lemma get_zones_returns_field: "outcome (get_zones e s l) = Inr zs \<Longrightarrow> zs = zones s"
  using fetch_zones_attrs[of e s l]
  by (auto simp add: get_zones_def prog_simps split: option.splits sum.splits prod.splits)

text \<open>So \<^verbatim>\<open>self.zones = self.get_zones()\<close> changes nothing.\<close>

lemma refresh_keeps_attrs:
  "attrs (bind (get_zones e) (\<lambda>zs. assign (\<lambda>s. s\<lparr>zones := zs\<rparr>)) s l) = s"
  using get_zones_attrs[of e s l] get_zones_returns_field[of e s l]
  by (auto simp add: prog_simps split: option.splits sum.splits prod.splits)

lemma add_zone_attrs: "attrs (add_zone e zone s l) = s"
proof (cases "net e (l @ [zone_add_post e s zone])")
  case None
  then show ?thesis
    by (simp add: add_zone_def zone_to_add_def prog_simps request_defs)
next
  case (Some r)
  show ?thesis
  proof (cases "status_code r = 200")
    case True
    with Some have "add_zone e zone s l
        = bind (get_zones e) (\<lambda>zs. assign (\<lambda>s. s\<lparr>zones := zs\<rparr>)) s (l @ [zone_add_post e s zone])"
      by (simp add: add_zone_def zone_to_add_def request_defs return_apply raise_apply
          get_self_apply http_apply bind_apply[of get_self] bind_apply[of "http e m u b" for m u b])
    then show ?thesis by (simp add: refresh_keeps_attrs)
  next
    case False
    with Some show ?thesis
      by (simp add: add_zone_def zone_to_add_def prog_simps request_defs)
  qed
qed

subsection \<open>Zones by id\<close>

lemma update_zone_state_unknown_id:
  "get_zone_by_id zone_id s = None \<Longrightarrow>
   update_zone_state e zone_id b s l = (Inl (Exception (Zone_not_found zone_id)), s, l)"
  by (simp add: update_zone_state_def prog_simps)

text \<open>For a known id the one change to the zone list is the state flag of the zone found;
  the list fetched afterwards is dropped. The zones of the list are pairwise different, so
  that no object is in the list twice.\<close>

lemma update_zone_state_known_id:
  "distinct (zones s) \<Longrightarrow> get_zone_by_id zone_id s = Some i \<Longrightarrow>
   attrs (update_zone_state e zone_id b s l)
     = s\<lparr>zones := (zones s)[i := (zones s ! i)\<lparr>state := VBool b\<rparr>]\<rparr>"
proof -
  let ?s' = "s\<lparr>zones := (zones s)[i := (zones s ! i)\<lparr>state := VBool b\<rparr>]\<rparr>"
  assume found: "get_zone_by_id zone_id s = Some i"
  have zone: "attrs (in_zone i (if b then turn_on e else turn_off e) s l) = ?s'"
    by (simp add: in_zone_def turn_on_def turn_off_def prog_simps
        split: option.splits sum.splits prod.splits)
  obtain r s1 l1 where run: "in_zone i (if b then turn_on e else turn_off e) s l = (r, s1, l1)"
    by (cases "in_zone i (if b then turn_on e else turn_off e) s l") auto
  with zone have s1: "s1 = ?s'" by (simp add: attrs_def)
  show ?thesis
  proof (cases r)
    case (Inl err)
    with found run s1 show ?thesis
      by (simp add: update_zone_state_def prog_simps)
  next
    case (Inr u)
    with found run s1 fetch_zones_attrs[of e ?s' l1] show ?thesis
      by (auto simp add: update_zone_state_def prog_simps split: sum.splits prod.splits)
  qed
qed

lemma update_zone_unknown_id:
  "get_zone_by_id (id' zone) s = None \<Longrightarrow>
   update_zone e zone s l = (Inl (Exception (Zone_not_found (id' zone))), s, l)"
  by (simp add: update_zone_def prog_simps)

text \<open>For a known id the call of \<^verbatim>\<open>Zone.update\<close> with an argument raises, before any request
  and any assignment.\<close>

lemma update_zone_known_id:
  "get_zone_by_id (id' zone) s = Some i \<Longrightarrow> update_zone e zone s l = (Inl TypeError, s, l)"
  by (simp add: update_zone_def update_def on_argument_def prog_simps)

text \<open>\<open>x_system\<close> is the System that the constructor leaves for the example host.\<close>

lemma x_system_constructed:
  "attrs (System_init example_env [] False ''http://x'' []) = x_system"
  by (simp add: System_init_def post_init_def get_zones_def fetch_zones_def
      get_system_state_def update_system_state_def json_of_def prog_simps example_defs)

subsection \<open>The system state\<close>

lemma update_system_state_ok:
  "net e (l @ [state_get e s]) = Some r \<Longrightarrow> json r = Some j \<Longrightarrow>
   getitem j ''system_state'' = Inr v \<Longrightarrow>
   update_system_state e s l = (Inr (), s\<lparr>state' := Some v\<rparr>, l @ [state_get e s])"
  by (simp add: update_system_state_def prog_simps request_defs json_of_def)

lemma get_system_state_ok:
  "net e (l @ [state_get e s]) = Some r \<Longrightarrow> json r = Some j \<Longrightarrow>
   getitem j ''system_state'' = Inr v \<Longrightarrow>
   get_system_state e s l = (Inr v, s\<lparr>state' := Some v\<rparr>, l @ [state_get e s])"
  using update_system_state_ok[of e l s r j v]
  by (simp add: get_system_state_def prog_simps)

lemma set_system_state_sent:
  "\<exists>rest. sent (set_system_state e b s l) = l @ state_put e s b # rest"
  by (auto simp add: set_system_state_def update_system_state_def prog_simps request_defs
      split: option.splits sum.splits prod.splits)

lemma set_system_state_refused:
  "net e (l @ [state_put e s b]) = Some r \<Longrightarrow> status_code r \<noteq> 200 \<Longrightarrow>
   set_system_state e b s l
     = (Inl (Exception (Failed_to_set_system_state b)), s, l @ [state_put e s b])"
  by (simp add: set_system_state_def prog_simps request_defs)

lemma set_system_state_ok:
  "net e (l @ [state_put e s b]) = Some r \<Longrightarrow> status_code r = 200 \<Longrightarrow>
   net e (l @ [state_put e s b, state_get e s]) = Some r' \<Longrightarrow> json r' = Some j \<Longrightarrow>
   getitem j ''system_state'' = Inr v \<Longrightarrow>
   set_system_state e b s l
     = (Inr (), s\<lparr>state' := Some v\<rparr>, l @ [state_put e s b, state_get e s])"
  using update_system_state_ok[of e "l @ [state_put e s b]" s r' j v]
  by (simp add: set_system_state_def prog_simps request_defs)

lemma set_then_get_system_state:
  "net e (l @ [state_put e s b]) = Some r \<Longrightarrow> status_code r = 200 \<Longrightarrow>
   net e (l @ [state_put e s b, state_get e s]) = Some r' \<Longrightarrow> json r' = Some j \<Longrightarrow>
   getitem j ''system_state'' = Inr v \<Longrightarrow>
   net e (l @ [state_put e s b, state_get e s, state_get e s]) = Some r'' \<Longrightarrow>
   json r'' = Some j' \<Longrightarrow> getitem j' ''system_state'' = Inr v' \<Longrightarrow>
   bind (set_system_state e b) (\<lambda>_. get_system_state e) s l
     = (Inr v', s\<lparr>state' := Some v'\<rparr>, l @ [state_put e s b, state_get e s, state_get e s])"
proof -
  let ?s1 = "s\<lparr>state' := Some v\<rparr>"
  let ?l1 = "l @ [state_put e s b, state_get e s]"
  assume put: "net e (l @ [state_put e s b]) = Some r" "status_code r = 200"
    and get1: "net e ?l1 = Some r'" "json r' = Some j" "getitem j ''system_state'' = Inr v"
    and get2: "net e (l @ [state_put e s b, state_get e s, state_get e s]) = Some r''"
      "json r'' = Some j'" "getitem j' ''system_state'' = Inr v'"
  have same: "state_get e ?s1 = state_get e s"
    by (simp add: state_get_def)
  have first: "set_system_state e b s l = (Inr (), ?s1, ?l1)"
    using put get1 by (rule set_system_state_ok)
  have "net e (?l1 @ [state_get e ?s1]) = Some r''"
    using get2(1) by (simp add: same)
  then have "get_system_state e ?s1 ?l1
      = (Inr v', ?s1\<lparr>state' := Some v'\<rparr>, ?l1 @ [state_get e ?s1])"
    using get2(2,3) by (rule get_system_state_ok)
  with first show ?thesis
    by (simp add: bind_apply same)
qed

lemma update_system_state_attrs: "\<exists>x. attrs (update_system_state e s l) = s\<lparr>state' := x\<rparr>"
proof (cases "outcome (update_system_state e s l)")
  case (Inl err)
  then have "attrs (update_system_state e s l) = s\<lparr>state' := state' s\<rparr>"
    by (auto simp add: update_system_state_def prog_simps
        split: option.splits sum.splits prod.splits)
  then show ?thesis by blast
next
  case (Inr u)
  then show ?thesis
    by (auto simp add: update_system_state_def prog_simps
        split: option.splits sum.splits prod.splits)
qed

lemma get_system_state_attrs: "\<exists>x. attrs (get_system_state e s l) = s\<lparr>state' := x\<rparr>"
  using update_system_state_attrs[of e s l]
  by (auto simp add: get_system_state_def prog_simps split: option.splits sum.splits prod.splits)

lemma set_system_state_attrs: "\<exists>x. attrs (set_system_state e b s l) = s\<lparr>state' := x\<rparr>"
proof (cases "net e (l @ [state_put e s b])")
  case None
  then have "attrs (set_system_state e b s l) = s\<lparr>state' := state' s\<rparr>"
    by (simp add: set_system_state_def prog_simps request_defs)
  then show ?thesis by blast
next
  case (Some r)
  show ?thesis
  proof (cases "status_code r = 200")
    case True
    with Some have "attrs (set_system_state e b s l)
        = attrs (update_system_state e s (l @ [state_put e s b]))"
      by (simp add: set_system_state_def prog_simps request_defs)
    then show ?thesis using update_system_state_attrs by simp
  next
    case False
    with Some have "attrs (set_system_state e b s l) = s\<lparr>state' := state' s\<rparr>"
      by (simp add: set_system_state_def prog_simps request_defs)
    then show ?thesis by blast
  qed
qed

lemma get_system_state_reads_state:
  "outcome (get_system_state e s l) = Inr v \<Longrightarrow>
   state' (attrs (get_system_state e s l)) = Some v"
  by (auto simp add: get_system_state_def prog_simps split: option.splits sum.splits prod.splits)

lemma call_attrs: "\<exists>x. fst (call e c s l) = s\<lparr>state' := x\<rparr>"
proof (cases c)
  case Get_system_state
  then show ?thesis using get_system_state_attrs[of e s l] by (simp add: attrs_def)
next
  case (Set_system_state b)
  then show ?thesis using set_system_state_attrs[of e b s l] by (simp add: attrs_def)
qed

lemma calls_attrs: "\<exists>x. fst (calls e cs s l) = s\<lparr>state' := x\<rparr>"
proof (induction cs arbitrary: s l)
  case Nil
  have "s = s\<lparr>state' := state' s\<rparr>" by simp
  then show ?case by (metis calls.simps(1) fst_conv)
next
  case (Cons c cs)
  obtain s1 l1 where c1: "call e c s l = (s1, l1)" by (cases "call e c s l")
  obtain x where x: "s1 = s\<lparr>state' := x\<rparr>" using call_attrs[of e c s l] c1 by auto
  obtain y where y: "fst (calls e cs s1 l1) = s1\<lparr>state' := y\<rparr>" using Cons.IH by blast
  have "fst (calls e (c # cs) s l) = s\<lparr>state' := y\<rparr>" using c1 x y by simp
  then show ?case by blast
qed

subsection \<open>Refused requests, and the pushes of a zone\<close>

lemma add_zone_refused:
  "net e (l @ [zone_add_post e s zone]) = Some r \<Longrightarrow> status_code r \<noteq> 200 \<Longrightarrow>
   add_zone e zone s l
     = (Inl (Exception (Failed_to_add_zone zone)), s, l @ [zone_add_post e s zone])"
  by (simp add: add_zone_def zone_to_add_def prog_simps request_defs)

lemma delete_zone_refused:
  "net e (l @ [zone_delete e s zone_id]) = Some r \<Longrightarrow> status_code r \<noteq> 200 \<Longrightarrow>
   delete_zone e zone_id s l
     = (Inl (Exception (Failed_to_delete_zone zone_id)), s, l @ [zone_delete e s zone_id])"
  by (simp add: delete_zone_def prog_simps request_defs)

lemma update_zone_order_refused:
  "net e (l @ [zone_order_put e s order]) = Some r \<Longrightarrow> status_code r \<noteq> 200 \<Longrightarrow>
   update_zone_order e order s l
     = (Inl (Exception (Failed_to_update_zone_order order)), s, l @ [zone_order_put e s order])"
  by (simp add: update_zone_order_def prog_simps request_defs)

lemma update_other_refused:
  "net e (l @ [zone_update_put e (merged self other)]) = Some r \<Longrightarrow> status_code r \<noteq> 200 \<Longrightarrow>
   update_other e other self l
     = (Inl (Exception (Zone_did_not_update (status_code r) (zone_json (merged self other)))),
        merged self other, l @ [zone_update_put e (merged self other)])"
  by (simp add: update_other_def zone_json_def merged_def prog_simps request_defs)

lemma turn_on_unchecked:
  "turn_on e self l =
     ((case net e (l @ [zone_state_put e (id' self) True]) of
         None \<Rightarrow> Inl TransportError | Some r \<Rightarrow> Inr ()),
      self\<lparr>state := VBool True\<rparr>, l @ [zone_state_put e (id' self) True])"
  by (simp add: turn_on_def state_payload_def prog_simps request_defs split: option.splits)

lemma turn_off_unchecked:
  "turn_off e self l =
     ((case net e (l @ [zone_state_put e (id' self) False]) of
         None \<Rightarrow> Inl TransportError | Some r \<Rightarrow> Inr ()),
      self\<lparr>state := VBool False\<rparr>, l @ [zone_state_put e (id' self) False])"
  by (simp add: turn_off_def state_payload_def prog_simps request_defs split: option.splits)

lemma update_other_attrs: "attrs (update_other e other self l) = merged self other"
  by (simp add: update_other_def merged_def prog_simps split: option.splits)

lemma update_other_self_attrs: "attrs (update_other_self e self l) = self"
  using update_other_attrs[of e self self l]
  by (simp add: update_other_self_def merged_def prog_simps)

lemma setter_attrs: "attrs (bind (assign f) (\<lambda>_. update_other_self e) self l) = f self"
  using update_other_self_attrs[of e "f self" l]
  by (simp add: prog_simps split: prod.splits sum.splits)

text \<open>A setter, or \<^verbatim>\<open>enable\<close>/\<^verbatim>\<open>disable\<close>: the assignment \<open>f\<close>, then the push of the zone as it
  is after the assignment. When the server refuses the push, the call raises and the
  assignment stays.\<close>

lemma setter_refused:
  "net e (l @ [zone_update_put e (f self)]) = Some r \<Longrightarrow> status_code r \<noteq> 200 \<Longrightarrow>
   bind (assign f) (\<lambda>_. update_other_self e) self l
     = (Inl (Exception (Zone_did_not_update (status_code r) (zone_json (f self)))),
        f self, l @ [zone_update_put e (f self)])"
proof -
  assume refused: "net e (l @ [zone_update_put e (f self)]) = Some r" "status_code r \<noteq> 200"
  have same: "merged (f self) (f self) = f self"
    by (simp add: merged_def)
  have "update_other e (f self) (f self) l
      = (Inl (Exception (Zone_did_not_update (status_code r) (zone_json (f self)))),
         f self, l @ [zone_update_put e (f self)])"
    using update_other_refused[of e l "f self" "f self" r] refused by (simp add: same)
  then show ?thesis
    by (simp add: update_other_self_def return_apply get_self_apply assign_apply bind_apply)
qed

section \<open>The properties\<close>

text \<open>
  C1. For every JSON array of valid zone records that the zone-info endpoint returns,
  \<^verbatim>\<open>get_zones()\<close> fetches the list again and returns one Zone per record, with the fields of
  the record.

  The code does not: \<^verbatim>\<open>get_zones\<close> drops what \<^verbatim>\<open>_fetch_zones\<close> returns and returns
  \<^verbatim>\<open>self.zones\<close> (\<open>get_zones_returns_field\<close> for every server). At the System constructed
  for \<^verbatim>\<open>http://x\<close>, whose server lists the record of zone Front, the GET is sent and the
  result is the empty list. The list that \<^verbatim>\<open>_fetch_zones\<close> builds and \<^verbatim>\<open>get_zones\<close> drops has
  one Zone, whose \<^verbatim>\<open>name\<close> is the whole record and whose other fields are the defaults: it is
  not the Zone of the record either.
\<close>

theorem get_zones_returns_held_list:
  "net example_env [Req GET ''http://x/zone/info'' None]
     = Some \<lparr>status_code = 200, json = Some (VList [front_record])\<rparr>
   \<and> get_zones example_env x_system []
     = (Inr [], x_system, [Req GET ''http://x/zone/info'' None])
   \<and> fetch_zones example_env x_system []
     = (Inr [Zone_default\<lparr>name := front_record\<rparr>], x_system,
        [Req GET ''http://x/zone/info'' None])
   \<and> Zone_default\<lparr>name := front_record\<rparr> \<noteq> front_zone"
  by (simp add: get_zones_def fetch_zones_def json_of_def Zone_positional_def Zone_default_def
      prog_simps example_defs)

text \<open>
  C2. Constructing a System for a host fetches the zone list and the system state and
  fills both fields; for the host of the example, \<^verbatim>\<open>system.zones\<close> is the list of the one
  zone Front and \<^verbatim>\<open>system.system_state\<close> is \<^verbatim>\<open>False\<close>.

  The code sends both GETs and sets \<^verbatim>\<open>system_state\<close> to \<^verbatim>\<open>False\<close>, but \<^verbatim>\<open>zones\<close> stays the
  empty list of the constructor's default.
\<close>

theorem System_init_at_example_host:
  "System_init example_env [] False ''http://x'' []
     = (Inr (),
        \<lparr>zones = [], system_state = VBool False, host = ''http://x'',
           state' = Some (VBool False)\<rparr>,
        [Req GET ''http://x/zone/info'' None, Req GET ''http://x/system/state'' None])
   \<and> net example_env [Req GET ''http://x/zone/info'' None]
     = Some \<lparr>status_code = 200, json = Some (VList [front_record])\<rparr>
   \<and> zones (attrs (System_init example_env [] False ''http://x'' [])) \<noteq> [front_zone]
   \<and> system_state (attrs (System_init example_env [] False ''http://x'' [])) = VBool False"
  by (simp add: System_init_def post_init_def get_zones_def fetch_zones_def
      get_system_state_def update_system_state_def json_of_def prog_simps example_defs)

text \<open>
  C3. \<^verbatim>\<open>update_zone(zone)\<close> looks up the zone of the System with the same id, fails with
  NotFoundError if there is none, otherwise merges the fields of \<^verbatim>\<open>zone\<close> into it through
  the update-from-peer operation of Zone (with its PUT) and refreshes the zone list.

  The code raises the not-found exception for an unknown id (\<open>update_zone_unknown_id\<close>).
  For a known id it calls \<^verbatim>\<open>zone.update(zone_to_update)\<close>, and \<^verbatim>\<open>Zone.update\<close> takes no
  argument: the call raises \<^verbatim>\<open>TypeError\<close>, nothing is merged, no request is sent
  (\<open>update_zone_known_id\<close> for every System and server). Here the System holds the zone
  Front and the argument is Front renamed.
\<close>

theorem update_zone_raises_TypeError:
  "update_zone example_env (front_zone\<lparr>name := VStr ''Lawn''\<rparr>)
       (x_system\<lparr>zones := [front_zone]\<rparr>) []
     = (Inl TypeError, x_system\<lparr>zones := [front_zone]\<rparr>, [])
   \<and> get_zone_by_id 1 (x_system\<lparr>zones := [front_zone]\<rparr>) = Some 0
   \<and> \<not> NotFoundError TypeError"
  by (simp add: update_zone_def update_def on_argument_def get_zone_by_id_def prog_simps
      example_defs)

text \<open>
  C4, as amended. A non-200 response to the system-state PUT, the zone add POST, the zone
  delete DELETE and the zone-order PUT raises OperationError and leaves the attributes of
  the System as they were. A non-200 response to the zone-update PUT raises OperationError
  too (with the status code and the payload), but \<^verbatim>\<open>update_other\<close> has copied the six
  configuration fields of the peer into the zone before it sends the PUT, and they stay
  copied; likewise \<^verbatim>\<open>enable\<close>, \<^verbatim>\<open>disable\<close> and each of the five setters have assigned their
  field before the PUT, which carries the zone with the new value, and the field keeps it
  when the call raises. \<^verbatim>\<open>turn_on\<close> and \<^verbatim>\<open>turn_off\<close> set the state flag before their PUT
  and return normally whatever status the server answers.
\<close>

theorem non_200_raises_OperationError:
  "(\<forall>r. net e (l @ [state_put e s b]) = Some r \<and> status_code r \<noteq> 200 \<longrightarrow>
      set_system_state e b s l
        = (Inl (Exception (Failed_to_set_system_state b)), s, l @ [state_put e s b]))
   \<and> (\<forall>r. net e (l @ [zone_add_post e s zone]) = Some r \<and> status_code r \<noteq> 200 \<longrightarrow>
      add_zone e zone s l
        = (Inl (Exception (Failed_to_add_zone zone)), s, l @ [zone_add_post e s zone]))
   \<and> (\<forall>r. net e (l @ [zone_delete e s zone_id]) = Some r \<and> status_code r \<noteq> 200 \<longrightarrow>
      delete_zone e zone_id s l
        = (Inl (Exception (Failed_to_delete_zone zone_id)), s, l @ [zone_delete e s zone_id]))
   \<and> (\<forall>r. net e (l @ [zone_order_put e s order]) = Some r \<and> status_code r \<noteq> 200 \<longrightarrow>
      update_zone_order e order s l
        = (Inl (Exception (Failed_to_update_zone_order order)), s,
           l @ [zone_order_put e s order]))
   \<and> (\<forall>r. net e (l @ [zone_update_put e (merged self other)]) = Some r
          \<and> status_code r \<noteq> 200 \<longrightarrow>
      update_other e other self l
        = (Inl (Exception (Zone_did_not_update (status_code r) (zone_json (merged self other)))),
           merged self other, l @ [zone_update_put e (merged self other)]))
   \<and> (\<forall>r. net e (l @ [zone_update_put e (self\<lparr>enabled := VBool True\<rparr>)]) = Some r
          \<and> status_code r \<noteq> 200 \<longrightarrow>
      enable e self l
        = (Inl (Exception (Zone_did_not_update (status_code r)
                  (zone_json (self\<lparr>enabled := VBool True\<rparr>)))),
           self\<lparr>enabled := VBool True\<rparr>,
           l @ [zone_update_put e (self\<lparr>enabled := VBool True\<rparr>)]))
   \<and> (\<forall>r. net e (l @ [zone_update_put e (self\<lparr>enabled := VBool False\<rparr>)]) = Some r
          \<and> status_code r \<noteq> 200 \<longrightarrow>
      disable e self l
        = (Inl (Exception (Zone_did_not_update (status_code r)
                  (zone_json (self\<lparr>enabled := VBool False\<rparr>)))),
           self\<lparr>enabled := VBool False\<rparr>,
           l @ [zone_update_put e (self\<lparr>enabled := VBool False\<rparr>)]))
   \<and> (\<forall>r. net e (l @ [zone_update_put e (self\<lparr>time := VInt t\<rparr>)]) = Some r
          \<and> status_code r \<noteq> 200 \<longrightarrow>
      set_time e t self l
        = (Inl (Exception (Zone_did_not_update (status_code r)
                  (zone_json (self\<lparr>time := VInt t\<rparr>)))),
           self\<lparr>time := VInt t\<rparr>, l @ [zone_update_put e (self\<lparr>time := VInt t\<rparr>)]))
   \<and> (\<forall>r. net e (l @ [zone_update_put e (self\<lparr>gpio := VInt g\<rparr>)]) = Some r
          \<and> status_code r \<noteq> 200 \<longrightarrow>
      set_gpio e g self l
        = (Inl (Exception (Zone_did_not_update (status_code r)
                  (zone_json (self\<lparr>gpio := VInt g\<rparr>)))),
           self\<lparr>gpio := VInt g\<rparr>, l @ [zone_update_put e (self\<lparr>gpio := VInt g\<rparr>)]))
   \<and> (\<forall>r. net e (l @ [zone_update_put e (self\<lparr>name := VStr n\<rparr>)]) = Some r
          \<and> status_code r \<noteq> 200 \<longrightarrow>
      set_name e n self l
        = (Inl (Exception (Zone_did_not_update (status_code r)
                  (zone_json (self\<lparr>name := VStr n\<rparr>)))),
           self\<lparr>name := VStr n\<rparr>, l @ [zone_update_put e (self\<lparr>name := VStr n\<rparr>)]))
   \<and> (\<forall>r. net e (l @ [zone_update_put e (self\<lparr>auto_off := VBool a\<rparr>)]) = Some r
          \<and> status_code r \<noteq> 200 \<longrightarrow>
      set_auto_off e a self l
        = (Inl (Exception (Zone_did_not_update (status_code r)
                  (zone_json (self\<lparr>auto_off := VBool a\<rparr>)))),
           self\<lparr>auto_off := VBool a\<rparr>,
           l @ [zone_update_put e (self\<lparr>auto_off := VBool a\<rparr>)]))
   \<and> (\<forall>r. net e (l @ [zone_update_put e (self\<lparr>system_order := VInt k\<rparr>)]) = Some r
          \<and> status_code r \<noteq> 200 \<longrightarrow>
      set_system_order e k self l
        = (Inl (Exception (Zone_did_not_update (status_code r)
                  (zone_json (self\<lparr>system_order := VInt k\<rparr>)))),
           self\<lparr>system_order := VInt k\<rparr>,
           l @ [zone_update_put e (self\<lparr>system_order := VInt k\<rparr>)]))
   \<and> OperationError (Exception (Failed_to_set_system_state b))
   \<and> OperationError (Exception (Failed_to_add_zone zone))
   \<and> OperationError (Exception (Failed_to_delete_zone zone_id))
   \<and> OperationError (Exception (Failed_to_update_zone_order order))
   \<and> OperationError (Exception (Zone_did_not_update code payload))
   \<and> turn_on e self l =
       ((case net e (l @ [zone_state_put e (id' self) True]) of
           None \<Rightarrow> Inl TransportError | Some r \<Rightarrow> Inr ()),
        self\<lparr>state := VBool True\<rparr>, l @ [zone_state_put e (id' self) True])
   \<and> turn_off e self l =
       ((case net e (l @ [zone_state_put e (id' self) False]) of
           None \<Rightarrow> Inl TransportError | Some r \<Rightarrow> Inr ()),
        self\<lparr>state := VBool False\<rparr>, l @ [zone_state_put e (id' self) False])"
proof -
  have system: "(\<forall>r. net e (l @ [state_put e s b]) = Some r \<and> status_code r \<noteq> 200 \<longrightarrow>
      set_system_state e b s l
        = (Inl (Exception (Failed_to_set_system_state b)), s, l @ [state_put e s b]))
   \<and> (\<forall>r. net e (l @ [zone_add_post e s zone]) = Some r \<and> status_code r \<noteq> 200 \<longrightarrow>
      add_zone e zone s l
        = (Inl (Exception (Failed_to_add_zone zone)), s, l @ [zone_add_post e s zone]))
   \<and> (\<forall>r. net e (l @ [zone_delete e s zone_id]) = Some r \<and> status_code r \<noteq> 200 \<longrightarrow>
      delete_zone e zone_id s l
        = (Inl (Exception (Failed_to_delete_zone zone_id)), s, l @ [zone_delete e s zone_id]))
   \<and> (\<forall>r. net e (l @ [zone_order_put e s order]) = Some r \<and> status_code r \<noteq> 200 \<longrightarrow>
      update_zone_order e order s l
        = (Inl (Exception (Failed_to_update_zone_order order)), s,
           l @ [zone_order_put e s order]))"
    using set_system_state_refused[of e l s b] add_zone_refused[of e l s zone]
      delete_zone_refused[of e l s zone_id] update_zone_order_refused[of e l s order]
    by simp
  have peer: "\<forall>r. net e (l @ [zone_update_put e (merged self other)]) = Some r
          \<and> status_code r \<noteq> 200 \<longrightarrow>
      update_other e other self l
        = (Inl (Exception (Zone_did_not_update (status_code r) (zone_json (merged self other)))),
           merged self other, l @ [zone_update_put e (merged self other)])"
    using update_other_refused[of e l self other] by simp
  have setter: "\<forall>r. net e (l @ [zone_update_put e (f self)]) = Some r
          \<and> status_code r \<noteq> 200 \<longrightarrow>
      bind (assign f) (\<lambda>_. update_other_self e) self l
        = (Inl (Exception (Zone_did_not_update (status_code r) (zone_json (f self)))),
           f self, l @ [zone_update_put e (f self)])" for f
    using setter_refused[of e l f self] by simp
  have errors: "OperationError (Exception (Failed_to_set_system_state b))
   \<and> OperationError (Exception (Failed_to_add_zone zone))
   \<and> OperationError (Exception (Failed_to_delete_zone zone_id))
   \<and> OperationError (Exception (Failed_to_update_zone_order order))
   \<and> OperationError (Exception (Zone_did_not_update code payload))"
    by simp
  show ?thesis
    unfolding enable_def disable_def set_time_def set_gpio_def set_name_def set_auto_off_def
      set_system_order_def
    using system peer errors
      setter[of "\<lambda>z. z\<lparr>enabled := VBool True\<rparr>"] setter[of "\<lambda>z. z\<lparr>enabled := VBool False\<rparr>"]
      setter[of "\<lambda>z. z\<lparr>time := VInt t\<rparr>"] setter[of "\<lambda>z. z\<lparr>gpio := VInt g\<rparr>"]
      setter[of "\<lambda>z. z\<lparr>name := VStr n\<rparr>"] setter[of "\<lambda>z. z\<lparr>auto_off := VBool a\<rparr>"]
      setter[of "\<lambda>z. z\<lparr>system_order := VInt k\<rparr>"]
      turn_on_unchecked[of e self l] turn_off_unchecked[of e self l]
    by simp
qed

text \<open>The amended C4 on the server that refuses everything with status 500.\<close>

theorem non_200_raises_OperationError_witness:
  "set_system_state failing_env True x_system []
     = (Inl (Exception (Failed_to_set_system_state True)), x_system,
        [Req PUT ''http://x/system/state'' (Some (VDict [(''system_state'', VBool True)]))])
   \<and> add_zone failing_env back_zone x_system []
     = (Inl (Exception (Failed_to_add_zone back_zone)), x_system,
        [Req POST ''http://x/zone'' (Some (VDict [(''name'', VStr ''Back''), (''gpio'', VInt 5),
           (''time'', VInt 60), (''enabled'', VBool True), (''auto_off'', VBool False)]))])
   \<and> delete_zone failing_env 1 x_system []
     = (Inl (Exception (Failed_to_delete_zone 1)), x_system,
        [Req DELETE ''http://x/zone'' (Some (VDict [(''id'', VInt 1)]))])
   \<and> update_zone_order failing_env [2, 1] x_system []
     = (Inl (Exception (Failed_to_update_zone_order [2, 1])), x_system,
        [Req PUT ''http://x/zone/order'' (Some (VDict [(''order'', VList [VInt 2, VInt 1])]))])
   \<and> update_other failing_env back_zone front_zone []
     = (Inl (Exception (Zone_did_not_update 500 (zone_json (back_zone\<lparr>id' := 1\<rparr>)))),
        back_zone\<lparr>id' := 1\<rparr>,
        [Req PUT ''http://x/zone/update'' (Some (zone_json (back_zone\<lparr>id' := 1\<rparr>)))])
   \<and> turn_on failing_env front_zone []
     = (Inr (), front_zone\<lparr>state := VBool True\<rparr>,
        [Req PUT ''http://x/zone'' (Some (VDict [(''id'', VInt 1), (''state'', VBool True)]))])
   \<and> enable failing_env front_zone []
     = (Inl (Exception (Zone_did_not_update 500 (zone_json (front_zone\<lparr>enabled := VBool True\<rparr>)))),
        front_zone\<lparr>enabled := VBool True\<rparr>,
        [Req PUT ''http://x/zone/update'' (Some (zone_json (front_zone\<lparr>enabled := VBool True\<rparr>)))])
   \<and> disable failing_env front_zone []
     = (Inl (Exception (Zone_did_not_update 500 (zone_json (front_zone\<lparr>enabled := VBool False\<rparr>)))),
        front_zone\<lparr>enabled := VBool False\<rparr>,
        [Req PUT ''http://x/zone/update'' (Some (zone_json (front_zone\<lparr>enabled := VBool False\<rparr>)))])
   \<and> set_time failing_env 5 front_zone []
     = (Inl (Exception (Zone_did_not_update 500 (zone_json (front_zone\<lparr>time := VInt 5\<rparr>)))),
        front_zone\<lparr>time := VInt 5\<rparr>,
        [Req PUT ''http://x/zone/update'' (Some (zone_json (front_zone\<lparr>time := VInt 5\<rparr>)))])
   \<and> set_gpio failing_env 17 front_zone []
     = (Inl (Exception (Zone_did_not_update 500 (zone_json (front_zone\<lparr>gpio := VInt 17\<rparr>)))),
        front_zone\<lparr>gpio := VInt 17\<rparr>,
        [Req PUT ''http://x/zone/update'' (Some (zone_json (front_zone\<lparr>gpio := VInt 17\<rparr>)))])
   \<and> set_name failing_env ''Lawn'' front_zone []
     = (Inl (Exception (Zone_did_not_update 500 (zone_json (front_zone\<lparr>name := VStr ''Lawn''\<rparr>)))),
        front_zone\<lparr>name := VStr ''Lawn''\<rparr>,
        [Req PUT ''http://x/zone/update'' (Some (zone_json (front_zone\<lparr>name := VStr ''Lawn''\<rparr>)))])
   \<and> set_auto_off failing_env True front_zone []
     = (Inl (Exception (Zone_did_not_update 500 (zone_json (front_zone\<lparr>auto_off := VBool True\<rparr>)))),
        front_zone\<lparr>auto_off := VBool True\<rparr>,
        [Req PUT ''http://x/zone/update'' (Some (zone_json (front_zone\<lparr>auto_off := VBool True\<rparr>)))])
   \<and> set_system_order failing_env 3 front_zone []
     = (Inl (Exception (Zone_did_not_update 500 (zone_json (front_zone\<lparr>system_order := VInt 3\<rparr>)))),
        front_zone\<lparr>system_order := VInt 3\<rparr>,
        [Req PUT ''http://x/zone/update'' (Some (zone_json (front_zone\<lparr>system_order := VInt 3\<rparr>)))])"
proof -
  have refused: "net failing_env q = Some \<lparr>status_code = 500, json = None\<rparr>" for q
    by (simp add: example_defs)
  have m: "merged front_zone back_zone = back_zone\<lparr>id' := 1\<rparr>"
    by (simp add: merged_def example_defs)
  have put: "zone_update_put failing_env z = Req PUT ''http://x/zone/update'' (Some (zone_json z))"
    for z
    by (simp add: request_defs example_defs zone_json_def)
  show ?thesis
    using non_200_raises_OperationError[where e = failing_env and l = "[]" and s = x_system
        and b = True and zone = back_zone and zone_id = 1 and order = "[2, 1]"
        and self = front_zone and other = back_zone and t = 5 and g = 17 and n = "''Lawn''"
        and a = True and k = 3]
    by (simp add: refused m put) (simp add: request_defs example_defs zone_json_def)
qed

text \<open>
  C4 as it was stated counts the zone-update PUT among the calls that leave the local
  fields unchanged on a non-200 response. \<^verbatim>\<open>set_time(5)\<close> on the zone Front, whose time is
  300, against the server that answers 500: OperationError is raised and the time of the
  zone is 5.
\<close>

theorem zone_update_put_mutates_before_check:
  "net failing_env [zone_update_put failing_env (front_zone\<lparr>time := VInt 5\<rparr>)]
     = Some \<lparr>status_code = 500, json = None\<rparr>
   \<and> set_time failing_env 5 front_zone []
     = (Inl (Exception (Zone_did_not_update 500 (zone_json (front_zone\<lparr>time := VInt 5\<rparr>)))),
        front_zone\<lparr>time := VInt 5\<rparr>,
        [zone_update_put failing_env (front_zone\<lparr>time := VInt 5\<rparr>)])
   \<and> OperationError
        (Exception (Zone_did_not_update 500 (zone_json (front_zone\<lparr>time := VInt 5\<rparr>))))
   \<and> time front_zone = VInt 300
   \<and> attrs (set_time failing_env 5 front_zone []) \<noteq> front_zone"
  by (simp add: set_time_def update_other_self_def update_other_def zone_json_def prog_simps
      request_defs example_defs)

text \<open>
  C5. \<^verbatim>\<open>set_system_state(b)\<close> PUTs \<^verbatim>\<open>{"system_state": b}\<close>. If the status of the response is
  not 200 it fails with an OperationError that names the state attempted. On success the
  state is fetched from the server again and not taken from the request: the attribute
  holds whatever the GET answers. A \<^verbatim>\<open>get_system_state()\<close> afterwards returns the value the
  server answers to its GET.
\<close>

theorem set_system_state_refetches:
  "(\<exists>rest. sent (set_system_state e b s l) = l @ state_put e s b # rest)
   \<and> (\<forall>r. net e (l @ [state_put e s b]) = Some r \<and> status_code r \<noteq> 200 \<longrightarrow>
         set_system_state e b s l
           = (Inl (Exception (Failed_to_set_system_state b)), s, l @ [state_put e s b])
         \<and> OperationError (Exception (Failed_to_set_system_state b)))
   \<and> (\<forall>r r' j v. net e (l @ [state_put e s b]) = Some r \<and> status_code r = 200
         \<and> net e (l @ [state_put e s b, state_get e s]) = Some r' \<and> json r' = Some j
         \<and> getitem j ''system_state'' = Inr v \<longrightarrow>
         set_system_state e b s l
           = (Inr (), s\<lparr>state' := Some v\<rparr>, l @ [state_put e s b, state_get e s]))
   \<and> (\<forall>r j v. net e (l @ [state_get e s]) = Some r \<and> json r = Some j
         \<and> getitem j ''system_state'' = Inr v \<longrightarrow>
         get_system_state e s l = (Inr v, s\<lparr>state' := Some v\<rparr>, l @ [state_get e s]))
   \<and> (\<forall>r r' j v r'' j' v'. net e (l @ [state_put e s b]) = Some r \<and> status_code r = 200
         \<and> net e (l @ [state_put e s b, state_get e s]) = Some r' \<and> json r' = Some j
         \<and> getitem j ''system_state'' = Inr v
         \<and> net e (l @ [state_put e s b, state_get e s, state_get e s]) = Some r''
         \<and> json r'' = Some j' \<and> getitem j' ''system_state'' = Inr v' \<longrightarrow>
         bind (set_system_state e b) (\<lambda>_. get_system_state e) s l
           = (Inr v', s\<lparr>state' := Some v'\<rparr>,
              l @ [state_put e s b, state_get e s, state_get e s]))"
  using set_system_state_sent[of e b s l] set_system_state_refused[of e l s b]
    set_system_state_ok[of e l s b] get_system_state_ok[of e l s]
    set_then_get_system_state[of e l s b]
  by auto

text \<open>
  C5 at the example host: the server that refuses, and the server that stores the state put
  and answers it. There \<^verbatim>\<open>set_system_state(True)\<close> followed by \<^verbatim>\<open>get_system_state()\<close> returns
  \<^verbatim>\<open>True\<close>, on a System whose state was \<^verbatim>\<open>False\<close>.
\<close>

theorem set_system_state_refetches_witness:
  "set_system_state failing_env True x_system []
     = (Inl (Exception (Failed_to_set_system_state True)), x_system,
        [Req PUT ''http://x/system/state'' (Some (VDict [(''system_state'', VBool True)]))])
   \<and> set_system_state example_env True x_system []
     = (Inr (), x_system\<lparr>state' := Some (VBool True)\<rparr>,
        [Req PUT ''http://x/system/state'' (Some (VDict [(''system_state'', VBool True)])),
         Req GET ''http://x/system/state'' None])
   \<and> bind (set_system_state example_env True) (\<lambda>_. get_system_state example_env) x_system []
     = (Inr (VBool True), x_system\<lparr>state' := Some (VBool True)\<rparr>,
        [Req PUT ''http://x/system/state'' (Some (VDict [(''system_state'', VBool True)])),
         Req GET ''http://x/system/state'' None, Req GET ''http://x/system/state'' None])"
proof -
  let ?put = "Req PUT ''http://x/system/state'' (Some (VDict [(''system_state'', VBool True)]))"
  let ?get = "Req GET ''http://x/system/state'' None"
  have put: "state_put failing_env x_system True = ?put"
      "state_put example_env x_system True = ?put"
    and get: "state_get example_env x_system = ?get"
    by (simp_all add: request_defs example_defs)
  have refused: "net failing_env ([] @ [?put]) = Some \<lparr>status_code = 500, json = None\<rparr>"
    by (simp add: example_defs)
  have accepted: "net example_env ([] @ [?put]) = Some \<lparr>status_code = 200, json = None\<rparr>"
    by (simp add: example_defs)
  have echoed: "net example_env ([] @ [?put, ?get])
      = Some \<lparr>status_code = 200, json = Some (VDict [(''system_state'', VBool True)])\<rparr>"
    by (simp add: example_defs)
  have again: "net example_env ([] @ [?put, ?get, ?get])
      = Some \<lparr>status_code = 200, json = Some (VDict [(''system_state'', VBool True)])\<rparr>"
    by (simp add: example_defs)
  show ?thesis
    using set_system_state_refetches[of failing_env True x_system "[]"]
      set_system_state_refetches[of example_env True x_system "[]"]
      refused accepted echoed again
    by (simp add: put get)
qed

text \<open>
  C6. For a \<^verbatim>\<open>zone_id\<close> that no zone of the System has, \<^verbatim>\<open>update_zone_state(zone_id, b)\<close>
  fails with NotFoundError and sends no request; for an id that is there it turns the zone
  on or off according to \<^verbatim>\<open>b\<close> and then refreshes the whole zone list.

  The code does the first (\<open>update_zone_state_unknown_id\<close>) and turns the zone on or off,
  but the \<^verbatim>\<open>self._fetch_zones()\<close> that follows drops the list it fetched
  (\<open>update_zone_state_known_id\<close> for every server and every System of pairwise different
  zones). Here the System holds zone 1
  under the stale name Old, and the server lists it as Front: after the call the zone is
  on, and still named Old.
\<close>

theorem update_zone_state_keeps_stale_list:
  "update_zone_state example_env 1 True (x_system\<lparr>zones := [front_zone\<lparr>name := VStr ''Old''\<rparr>]\<rparr>) []
     = (Inr (),
        x_system\<lparr>zones := [front_zone\<lparr>name := VStr ''Old'', state := VBool True\<rparr>]\<rparr>,
        [Req PUT ''http://x/zone'' (Some (VDict [(''id'', VInt 1), (''state'', VBool True)])),
         Req GET ''http://x/zone/info'' None])
   \<and> net example_env
        [Req PUT ''http://x/zone'' (Some (VDict [(''id'', VInt 1), (''state'', VBool True)])),
         Req GET ''http://x/zone/info'' None]
     = Some \<lparr>status_code = 200, json = Some (VList [front_record])\<rparr>
   \<and> update_zone_state example_env 7 True
        (x_system\<lparr>zones := [front_zone\<lparr>name := VStr ''Old''\<rparr>]\<rparr>) []
     = (Inl (Exception (Zone_not_found 7)),
        x_system\<lparr>zones := [front_zone\<lparr>name := VStr ''Old''\<rparr>]\<rparr>, [])"
  by (simp add: update_zone_state_def in_zone_def turn_on_def state_payload_def fetch_zones_def
      get_zone_by_id_def json_of_def prog_simps example_defs)

text \<open>
  C7. \<^verbatim>\<open>add_zone(zone)\<close> POSTs a payload of exactly the fields name, gpio, time, enabled and
  auto_off; a non-200 response fails with OperationError; on success the zone list is
  refreshed, so that \<^verbatim>\<open>get_zones()\<close> afterwards has a zone with those five fields.

  The code sends that payload and raises on a non-200 response (\<open>add_zone_refused\<close>), but
  \<^verbatim>\<open>self.zones = self.get_zones()\<close> assigns the list the System already holds
  (\<open>add_zone_attrs\<close> for every System and server). Here the zone Back is added to the System
  constructed for \<^verbatim>\<open>http://x\<close>: the server lists Front and Back afterwards, and
  \<^verbatim>\<open>get_zones()\<close> returns the empty list.
\<close>

theorem add_zone_then_get_zones:
  "add_zone example_env back_zone x_system []
     = (Inr (), x_system,
        [Req POST ''http://x/zone'' (Some (VDict [(''name'', VStr ''Back''), (''gpio'', VInt 5),
           (''time'', VInt 60), (''enabled'', VBool True), (''auto_off'', VBool False)])),
         Req GET ''http://x/zone/info'' None])
   \<and> get_zones example_env x_system (sent (add_zone example_env back_zone x_system []))
     = (Inr [], x_system,
        [Req POST ''http://x/zone'' (Some (VDict [(''name'', VStr ''Back''), (''gpio'', VInt 5),
           (''time'', VInt 60), (''enabled'', VBool True), (''auto_off'', VBool False)])),
         Req GET ''http://x/zone/info'' None, Req GET ''http://x/zone/info'' None])
   \<and> net example_env
        (sent (get_zones example_env x_system (sent (add_zone example_env back_zone x_system []))))
     = Some \<lparr>status_code = 200, json = Some (VList [front_record, back_record])\<rparr>"
  by (simp add: add_zone_def zone_to_add_def get_zones_def fetch_zones_def json_of_def
      prog_simps example_defs)

text \<open>
  C8. \<^verbatim>\<open>delete_zone(zone_id)\<close> sends one DELETE with the body \<^verbatim>\<open>{"id": zone_id}\<close>, fails
  with OperationError on a non-200 response, and in every case (transport failure, refusal,
  success) leaves the zone list of the System, and every other attribute, as it was: it
  does not fetch the zones afterwards.
\<close>

theorem delete_zone_keeps_zones:
  "sent (delete_zone e zone_id s l) = l @ [zone_delete e s zone_id]
   \<and> outcome (delete_zone e zone_id s l) =
       (case net e (l @ [zone_delete e s zone_id]) of
          None \<Rightarrow> Inl TransportError
        | Some r \<Rightarrow>
            if status_code r \<noteq> 200 then Inl (Exception (Failed_to_delete_zone zone_id))
            else Inr ())
   \<and> OperationError (Exception (Failed_to_delete_zone zone_id))
   \<and> zones (attrs (delete_zone e zone_id s l)) = zones s
   \<and> attrs (delete_zone e zone_id s l) = s"
  by (simp add: delete_zone_def prog_simps request_defs split: option.splits)

text \<open>
  C9. \<^verbatim>\<open>update_other(other)\<close> copies exactly the six configuration fields name, gpio, time,
  enabled, auto_off and system_order of \<^verbatim>\<open>other\<close> into the zone. Whatever the server
  answers, and also when the call raises, the id and the state of the zone are what they
  were: for \<^verbatim>\<open>update_other\<close>, for \<^verbatim>\<open>enable\<close> and \<^verbatim>\<open>disable\<close>, and for every setter of one
  field, which changes that field and nothing else.
\<close>

theorem update_other_copies_configuration:
  "attrs (update_other e other self l)
     = self\<lparr>name := name other, gpio := gpio other, time := time other,
          enabled := enabled other, auto_off := auto_off other,
          system_order := system_order other\<rparr>
   \<and> attrs (enable e self l) = self\<lparr>enabled := VBool True\<rparr>
   \<and> attrs (disable e self l) = self\<lparr>enabled := VBool False\<rparr>
   \<and> attrs (set_time e t self l) = self\<lparr>time := VInt t\<rparr>
   \<and> attrs (set_gpio e g self l) = self\<lparr>gpio := VInt g\<rparr>
   \<and> attrs (set_name e n self l) = self\<lparr>name := VStr n\<rparr>
   \<and> attrs (set_auto_off e a self l) = self\<lparr>auto_off := VBool a\<rparr>
   \<and> attrs (set_system_order e k self l) = self\<lparr>system_order := VInt k\<rparr>
   \<and> list_all (\<lambda>m. id' (attrs (m self l)) = id' self \<and> state (attrs (m self l)) = state self)
        [update_other e other, enable e, disable e, set_time e t, set_gpio e g, set_name e n,
         set_auto_off e a, set_system_order e k]"
  by (simp add: update_other_attrs setter_attrs enable_def disable_def set_time_def
      set_gpio_def set_name_def set_auto_off_def set_system_order_def) (simp add: merged_def)

text \<open>
  C10. \<^verbatim>\<open>get_system_state\<close> and \<^verbatim>\<open>set_system_state\<close> read and write the attribute \<^verbatim>\<open>state\<close>
  (\<open>state'\<close>), not the field \<^verbatim>\<open>system_state\<close> of the dataclass: the attribute is the only
  thing either can change, and what \<^verbatim>\<open>get_system_state\<close> returns is what the attribute then
  holds. So through every sequence of the two calls, whether they return or raise, the field
  \<^verbatim>\<open>system_state\<close> keeps its value, and after a construction it keeps the value that
  \<^verbatim>\<open>__post_init__\<close> gave it.
\<close>

theorem system_state_field_untouched:
  "(\<exists>x. attrs (get_system_state e s l) = s\<lparr>state' := x\<rparr>)
   \<and> (\<exists>x. attrs (set_system_state e b s l) = s\<lparr>state' := x\<rparr>)
   \<and> (case outcome (get_system_state e s l) of
         Inl err \<Rightarrow> True
       | Inr v \<Rightarrow> state' (attrs (get_system_state e s l)) = Some v)
   \<and> system_state (fst (calls e cs s l)) = system_state s
   \<and> system_state (fst (calls e cs (attrs (System_init e zs st h l0))
                                   (sent (System_init e zs st h l0))))
       = system_state (attrs (System_init e zs st h l0))"
proof -
  have "system_state (fst (calls e cs s' l')) = system_state s'" for s' l'
    using calls_attrs[of e cs s' l'] by auto
  then show ?thesis
    using get_system_state_attrs[of e s l] set_system_state_attrs[of e b s l]
      get_system_state_reads_state[of e s l]
    by (auto split: sum.splits)
qed

end
